theory Spec2Isabelle
  imports Main "HOL-Library.Word"
begin

section \<open>Commands\<close>

text \<open>
  The command kinds the sources switch on (\<open>cm.GetCommand()\<close>). The enum itself is declared
  in Command.hpp, which is not among the sources; the constructors below are the kinds the
  sources name, plus \<open>COMMAND_NONE\<close> for every other kind.
\<close>

datatype GLOBAL_COMMANDS =
    COMMAND_NONE
  | TASK_SPECIFIC_COMMAND
  | DATA_COMMAND
  | CONTROL_ACTION
  | REQUEST_COMMAND
  | HEARTBEAT_COMMAND
  | TELEMETRY_CHANGE_PERIOD

type_synonym byte = "8 word"

text \<open>
  A Command: kind, 16-bit task sub-code (\<open>(uint16_t)cm.GetTaskCommand()\<close>) and an optional
  owned payload. \<open>resetCalls\<close> is not a field of the C++ class: it counts the calls of
  \<open>Reset()\<close> made on the object, so that "exactly once" can be stated.
\<close>

record Command =
  command :: GLOBAL_COMMANDS
  taskCommand :: "16 word"
  data :: "byte list option"
  resetCalls :: nat

definition GetCommand :: "Command \<Rightarrow> GLOBAL_COMMANDS" where
  "GetCommand cm = command cm"

definition GetTaskCommand :: "Command \<Rightarrow> 16 word" where
  "GetTaskCommand cm = taskCommand cm"

text \<open>
  Modelled from the spec: the Command class (Command.hpp/.cpp) is not among the sources.
  Spec 4.1: a Command is constructible from (kind, subCommand) with no payload;
  \<open>CopyDataFromCommand(dst, size)\<close> copies the owned payload out without transferring
  ownership; \<open>Reset()\<close> releases any owned payload and is idempotent.
\<close>

definition Command_new :: "GLOBAL_COMMANDS \<Rightarrow> 16 word \<Rightarrow> Command" where
  "Command_new k tc = \<lparr>command = k, taskCommand = tc, data = None, resetCalls = 0\<rparr>"

definition CopyDataFromCommand :: "Command \<Rightarrow> nat \<Rightarrow> byte list" where
  "CopyDataFromCommand cm n = (case data cm of None \<Rightarrow> [] | Some bs \<Rightarrow> take n bs)"

definition Reset :: "Command \<Rightarrow> Command" where
  "Reset cm = cm\<lparr>data := None, resetCalls := Suc (resetCalls cm)\<rparr>"

section \<open>Constants declared outside the sources\<close>

text \<open>
  The task sub-codes, payload struct sizes, cycle count and \<open>enum RocketState\<close> values
  below are used by the sources but declared in headers that are not among them; they are
  taken as parameters.
\<close>

record Consts =
  BMS_UPDATE :: "16 word"
  CHARGER_UPDATE :: "16 word"
  FUEL_GAUGE_UPDATE :: "16 word"
  sizeof_BMSData :: nat
  sizeof_ChargerData :: nat
  sizeof_FuelGaugeData :: nat
  RSC_ANY_TO_ABORT :: "16 word"
  RADIOHB_REQUEST :: "16 word"
  ERASE_ALL_FLASH :: "16 word"
  FT_REQUEST_TRANSMIT_STATE :: "16 word"
  FLIGHT_TASK_BOOTUP_TELE_CYCLES :: nat
  RS_PRELAUNCH :: int
  RS_ABORT :: int
  RS_NONE :: int

section \<open>Wire messages (generated by the schema compiler)\<close>

text \<open>
  The generated classes of namespace \<open>Proto\<close> are not among the sources. The types below
  hold the fields the sources read and write. An enum has the enumerators the sources
  name and one constructor for all its other values; \<open>NODE_INVALID\<close> is the value of a
  node field that was never set.
\<close>

datatype Node = NODE_INVALID | NODE_RCU | NODE_DMB | NODE_PMB | NODE_OTHER nat

datatype MessageID = MSG_COMMAND | MSG_CONTROL | MSG_TELEMETRY

datatype SystemControl_Command =
    SYS_FLASH_LOG_ENABLE
  | SYS_FLASH_LOG_DISABLE
  | SYS_RESET
  | SYS_CRITICAL_FLASH_FULL_ERASE
  | SYS_LOG_PERIOD_CHANGE
  | SYS_OTHER nat

record SystemControl =
  sys_cmd :: SystemControl_Command
  cmd_param :: "32 word"

record AckNack =
  acking_msg_source :: Node
  acking_sequence_num :: "32 word"

datatype SystemState_State = SYS_UNCAUGHT_RESET | SYS_BOOTUP_COMPLETE | SYS_NORMAL_OPERATION

record Proto_SystemState =
  sys_state :: SystemState_State
  rocket_state :: nat

text \<open>
  The alternatives of a control message (\<open>has_hb\<close>, \<open>has_ping\<close>, \<open>has_sys_ctrl\<close>,
  \<open>set_ack\<close>, \<open>set_sys_state\<close>): at most one is set.
\<close>

datatype ControlContent =
    NoContent
  | Ack AckNack
  | Hb
  | Ping
  | SysState Proto_SystemState
  | SysCtrl SystemControl
  | OtherContent

datatype DmbCommand_Command = Proto_RSC_ANY_TO_ABORT | Proto_RSC_OTHER nat

datatype CommandContent = NoCommand | PmbCommand DmbCommand_Command | OtherCommand

record Envelope =
  source :: Node
  target :: Node
  source_sequence_num :: "32 word"

record ControlMessage = Envelope +
  content :: ControlContent

record CommandMessage = Envelope +
  cmd_content :: CommandContent

text \<open>A default-constructed \<open>Proto::ControlMessage\<close>: nothing set.\<close>

definition ControlMessage_new :: ControlMessage where
  "ControlMessage_new =
     \<lparr>source = NODE_INVALID, target = NODE_INVALID, source_sequence_num = 0,
      content = NoContent\<rparr>"

section \<open>Events\<close>

text \<open>
  \<open>enum BatteryState\<close> as its numeric value: the code compares it (\<open>nextState >= BS_NONE\<close>),
  indexes \<open>stateArray\<close> with it and compares it with the loop counter.
\<close>

type_synonym BatteryState = nat

text \<open>
  What a call leaves behind outside the objects it is made on, in the order it happens:
  calls of the entry and exit hooks of the battery states (by the id of the state object),
  \<open>SOAR_PRINT\<close> output (format string and arguments), and the calls into classes that
  are not among the sources: \<open>SendCommand\<close> on a task, \<open>SendProtobufMessage\<close> on a
  protocol task (with the message that was serialized into the write buffer), and
  \<open>HandleRequestCommand\<close> of the BMS task.
\<close>

datatype print_arg = ArgStr string | ArgNum nat | ArgKind GLOBAL_COMMANDS

datatype task = FlightTask | WatchdogTask | FlashTask | TelemetryTask

datatype gateway = PMBProtocolTask | DMBProtocolTask

datatype event =
    OnEnter_call BatteryState
  | OnExit_call BatteryState
  | SOAR_PRINT string "print_arg list"
  | SendCommand task Command
  | SendProtobufMessage gateway ControlMessage MessageID
  | HandleRequestCommand_call "16 word"

fun is_hook :: "event \<Rightarrow> bool" where
  "is_hook (OnEnter_call s) = True"
| "is_hook (OnExit_call s) = True"
| "is_hook e = False"

definition hook_calls :: "event list \<Rightarrow> event list" where
  "hook_calls tr = filter is_hook tr"

text \<open>
  How a call can stop the system: a failed \<open>SOAR_ASSERT\<close> (fatal), a call through a null
  pointer, a read of \<open>stateArray\<close> past its end.
\<close>

datatype fault =
    AssertFailed string
  | NullPointer
  | OutOfBounds

section \<open>Battery state machine (BatterySM.hpp, BatterySM.cpp)\<close>

definition BS_IDLE :: BatteryState where "BS_IDLE = 0"
definition BS_CHARGING :: BatteryState where "BS_CHARGING = 1"
definition BS_DISCHARGING :: BatteryState where "BS_DISCHARGING = 2"
definition BS_FAULT :: BatteryState where "BS_FAULT = 3"
definition BS_NONE :: BatteryState where "BS_NONE = 4"

type_synonym BMSData = "byte list"
type_synonym ChargerData = "byte list"
type_synonym FuelGaugeData = "byte list"

text \<open>
  \<open>class BaseBatteryState\<close>: the protected field \<open>bsStateID\<close> and the virtual data
  handlers, as a record of functions. \<open>OnEnter\<close> and \<open>OnExit\<close> of the four concrete
  classes only return \<open>bsStateID\<close>; a call of either is recorded as an event.
\<close>

record BaseBatteryState =
  bsStateID :: BatteryState
  HandleBMSData :: "BMSData \<Rightarrow> BatteryState"
  HandleChargerData :: "ChargerData \<Rightarrow> BatteryState"
  HandleFuelGaugeData :: "FuelGaugeData \<Rightarrow> BatteryState"

definition GetStateID :: "BaseBatteryState \<Rightarrow> BatteryState" where
  "GetStateID s = bsStateID s"

text \<open>
  The concrete states. Every data handler of the source returns \<open>currentState\<close>, an
  identifier that no source file declares; it is a parameter here.
\<close>

definition Idle :: "BatteryState \<Rightarrow> BaseBatteryState" where
  "Idle currentState =
     \<lparr>bsStateID = BS_IDLE,
      HandleBMSData = (\<lambda>bms. currentState),
      HandleChargerData = (\<lambda>charger. currentState),
      HandleFuelGaugeData = (\<lambda>fuel_gauge. currentState)\<rparr>"

definition Charging :: "BatteryState \<Rightarrow> BaseBatteryState" where
  "Charging currentState =
     \<lparr>bsStateID = BS_CHARGING,
      HandleBMSData = (\<lambda>bms. currentState),
      HandleChargerData = (\<lambda>charger. currentState),
      HandleFuelGaugeData = (\<lambda>fuel_gauge. currentState)\<rparr>"

definition Discharging :: "BatteryState \<Rightarrow> BaseBatteryState" where
  "Discharging currentState =
     \<lparr>bsStateID = BS_DISCHARGING,
      HandleBMSData = (\<lambda>bms. currentState),
      HandleChargerData = (\<lambda>charger. currentState),
      HandleFuelGaugeData = (\<lambda>fuel_gauge. currentState)\<rparr>"

definition Fault :: "BatteryState \<Rightarrow> BaseBatteryState" where
  "Fault currentState =
     \<lparr>bsStateID = BS_FAULT,
      HandleBMSData = (\<lambda>bms. currentState),
      HandleChargerData = (\<lambda>charger. currentState),
      HandleFuelGaugeData = (\<lambda>fuel_gauge. currentState)\<rparr>"

fun StateToString :: "BatteryState \<Rightarrow> string" where
  "StateToString stateId =
     (if stateId = BS_IDLE then ''Idle''
      else if stateId = BS_CHARGING then ''Charging''
      else if stateId = BS_DISCHARGING then ''Discharging''
      else if stateId = BS_FAULT then ''Fault''
      else if stateId = BS_NONE then ''None''
      else ''WARNING: Invalid'')"

text \<open>\<open>class BatterySM\<close>: null pointers are \<open>None\<close>.\<close>

record BatterySM =
  stateArray :: "BaseBatteryState option list"
  bs_currentState :: "BaseBatteryState option"

text \<open>
  The loop of the constructor, from counter \<open>i\<close>:
  \<open>for (uint8_t i = 0; i < BS_NONE; i++) { SOAR_ASSERT(stateArray[i] != nullptr);
  SOAR_ASSERT(stateArray[i]->GetStateID() == i); }\<close>
\<close>

function verifyStates :: "BaseBatteryState option list \<Rightarrow> nat \<Rightarrow> fault + unit" where
  "verifyStates arr i =
     (if i < BS_NONE then
        (if length arr \<le> i then Inl OutOfBounds
         else case arr ! i of
           None \<Rightarrow> Inl (AssertFailed ''stateArray[i] != nullptr'')
         | Some s \<Rightarrow>
             if GetStateID s = i then verifyStates arr (i + 1)
             else Inl (AssertFailed ''stateArray[i]->GetStateID() == i''))
      else Inr ())"
  by pat_completeness auto
termination
  by (relation "measure (\<lambda>(arr, i). BS_NONE - i)") auto

declare verifyStates.simps [simp del]

text \<open>
  The constructor from the verification loop on, for a table \<open>arr\<close> of state objects.
\<close>

definition BatterySM_from ::
  "BaseBatteryState option list \<Rightarrow> BatteryState \<Rightarrow> bool \<Rightarrow> event list
     \<Rightarrow> fault + (BatterySM \<times> event list)" where
  "BatterySM_from arr startingState enterStartingState tr =
     (case verifyStates arr 0 of
        Inl e \<Rightarrow> Inl e
      | Inr u \<Rightarrow>
          if length arr \<le> startingState then Inl OutOfBounds
          else case arr ! startingState of
            None \<Rightarrow> Inl NullPointer
          | Some cur \<Rightarrow>
              let tr1 = (if enterStartingState then tr @ [OnEnter_call (bsStateID cur)] else tr)
              in Inr (\<lparr>stateArray = arr, bs_currentState = Some cur\<rparr>,
                      tr1 @ [SOAR_PRINT ''Battery State Machine Started in [ %s ] state\<newline>''
                               [ArgStr (StateToString (GetStateID cur))]]))"

text \<open>
  \<open>BatterySM::BatterySM\<close>: the table is filled in the order of the enum with
  \<open>new Idle()\<close>, \<open>new Charging()\<close>, \<open>new Discharging()\<close>, \<open>new Fault()\<close>. (A failed
  allocation stops the system inside \<open>soar_malloc\<close>, before the table is used; the heap is
  not part of the model.)
\<close>

definition stateTable :: "BatteryState \<Rightarrow> BaseBatteryState option list" where
  "stateTable currentState =
     [Some (Idle currentState), Some (Charging currentState),
      Some (Discharging currentState), Some (Fault currentState)]"

definition BatterySM_new ::
  "BatteryState \<Rightarrow> BatteryState \<Rightarrow> bool \<Rightarrow> event list \<Rightarrow> fault + (BatterySM \<times> event list)" where
  "BatterySM_new currentState startingState enterStartingState tr =
     BatterySM_from (stateTable currentState) startingState enterStartingState tr"

text \<open>\<open>BatterySM::TransitionState\<close>: returns the state id, the machine and the events.\<close>

definition TransitionState ::
  "BatteryState \<Rightarrow> BatterySM \<Rightarrow> event list \<Rightarrow> fault + (BatteryState \<times> BatterySM \<times> event list)" where
  "TransitionState nextState sm tr =
     (case bs_currentState sm of
        None \<Rightarrow> Inl NullPointer
      | Some cur \<Rightarrow>
          if nextState = GetStateID cur then Inr (GetStateID cur, sm, tr)
          else if nextState \<ge> BS_NONE then Inr (GetStateID cur, sm, tr)
          else
            let previousState = GetStateID cur;
                tr1 = tr @ [OnExit_call (bsStateID cur)]
            in if length (stateArray sm) \<le> nextState then Inl OutOfBounds
               else case stateArray sm ! nextState of
                 None \<Rightarrow> Inl (AssertFailed ''bs_currentState is nullptr in TransitionState'')
               | Some nxt \<Rightarrow>
                   Inr (GetStateID nxt, sm\<lparr>bs_currentState := Some nxt\<rparr>,
                        tr1 @ [OnEnter_call (bsStateID nxt),
                               SOAR_PRINT ''BATTERY STATE TRANSITION [ %s ] --> [ %s ]\<newline>''
                                 [ArgStr (StateToString previousState),
                                  ArgStr (StateToString (GetStateID nxt))]]))"

text \<open>
  \<open>BatterySM::HandleCommand\<close>. The local \<open>nextState\<close> is assigned in every branch of the
  inner switch and read nowhere; the function returns nothing.
\<close>

definition HandleCommand ::
  "Consts \<Rightarrow> Command \<Rightarrow> BatterySM \<Rightarrow> event list \<Rightarrow> fault + (BatterySM \<times> event list)" where
  "HandleCommand K cm sm tr =
     (case bs_currentState sm of
        None \<Rightarrow> Inl (AssertFailed ''Command received before state machine initialized'')
      | Some cur \<Rightarrow>
          (case GetCommand cm of
             DATA_COMMAND \<Rightarrow>
               (let nextState = GetStateID cur in
                if GetTaskCommand cm = BMS_UPDATE K then
                  (let bms = CopyDataFromCommand cm (sizeof_BMSData K);
                       nextState = HandleBMSData cur bms
                   in Inr (sm, tr))
                else if GetTaskCommand cm = CHARGER_UPDATE K then
                  (let charger = CopyDataFromCommand cm (sizeof_ChargerData K);
                       nextState = HandleChargerData cur charger
                   in Inr (sm, tr))
                else if GetTaskCommand cm = FUEL_GAUGE_UPDATE K then
                  (let fuel_gauge = CopyDataFromCommand cm (sizeof_FuelGaugeData K);
                       nextState = HandleFuelGaugeData cur fuel_gauge
                   in Inr (sm, tr))
                else
                  Inr (sm, tr @ [SOAR_PRINT ''BatterySM - Unknown DATA_COMMAND TaskCommand: %d\<newline>''
                                   [ArgNum (unat (GetTaskCommand cm))]]))
           | _ \<Rightarrow> Inr (sm, tr)))"

text \<open>
  The construction invariant of the state table: every slot in \<open>[0, BS_NONE)\<close> holds a
  state object, and the object in slot \<open>i\<close> reports the id \<open>i\<close>.
\<close>

definition slotOk :: "BaseBatteryState option list \<Rightarrow> nat \<Rightarrow> bool" where
  "slotOk arr i =
     (i < length arr \<and> (case arr ! i of None \<Rightarrow> False | Some s \<Rightarrow> GetStateID s = i))"

definition tableInvariant :: "BaseBatteryState option list \<Rightarrow> bool" where
  "tableInvariant arr = list_all (slotOk arr) [0..<BS_NONE]"

section \<open>Protocol gateway (PMBProtocolTask)\<close>

text \<open>
  Both handlers work on the decoded message (\<open>msg.deserialize(readBuffer)\<close>, whose
  result the source does not look at) and return the events appended to \<open>out\<close>. The
  accessors of the generated classes read the one alternative a message holds.
\<close>

definition has_pmb_command :: "CommandMessage \<Rightarrow> bool" where
  "has_pmb_command msg = (case cmd_content msg of PmbCommand c \<Rightarrow> True | _ \<Rightarrow> False)"

definition get_command_enum :: "CommandMessage \<Rightarrow> DmbCommand_Command" where
  "get_command_enum msg =
     (case cmd_content msg of PmbCommand c \<Rightarrow> c | _ \<Rightarrow> Proto_RSC_OTHER 0)"

definition has_hb :: "ControlMessage \<Rightarrow> bool" where
  "has_hb msg = (content msg = Hb)"

definition has_ping :: "ControlMessage \<Rightarrow> bool" where
  "has_ping msg = (content msg = Ping)"

definition has_sys_ctrl :: "ControlMessage \<Rightarrow> bool" where
  "has_sys_ctrl msg = (case content msg of SysCtrl sc \<Rightarrow> True | _ \<Rightarrow> False)"

definition get_sys_ctrl :: "ControlMessage \<Rightarrow> SystemControl" where
  "get_sys_ctrl msg =
     (case content msg of SysCtrl sc \<Rightarrow> sc | _ \<Rightarrow> \<lparr>sys_cmd = SYS_OTHER 0, cmd_param = 0\<rparr>)"

definition HandleProtobufCommandMessage ::
  "Consts \<Rightarrow> CommandMessage \<Rightarrow> event list \<Rightarrow> fault + event list" where
  "HandleProtobufCommandMessage K msg out =
     (if source msg \<noteq> NODE_RCU \<or> target msg \<noteq> NODE_PMB then Inr out
      else if \<not> has_pmb_command msg then Inr out
      else case get_command_enum msg of
        Proto_RSC_ANY_TO_ABORT \<Rightarrow>
          Inr (out @ [SendCommand FlightTask (Command_new CONTROL_ACTION (RSC_ANY_TO_ABORT K))])
      | _ \<Rightarrow> Inr out)"

definition HandleProtobufControlMesssage ::
  "Consts \<Rightarrow> ControlMessage \<Rightarrow> event list \<Rightarrow> fault + event list" where
  "HandleProtobufControlMesssage K msg out =
     (if source msg \<noteq> NODE_RCU \<or> target msg \<noteq> NODE_PMB then Inr out
      else if has_hb msg then
        Inr (out @ [SendCommand WatchdogTask (Command_new HEARTBEAT_COMMAND (RADIOHB_REQUEST K))])
      else if has_ping msg then
        (let ack = \<lparr>acking_msg_source = source msg,
                    acking_sequence_num = source_sequence_num msg\<rparr>;
             ackResponse = ControlMessage_new\<lparr>content := Ack ack\<rparr>
         in Inr (out @ [SendProtobufMessage PMBProtocolTask ackResponse MSG_CONTROL]))
      else if has_sys_ctrl msg then
        (if sys_cmd (get_sys_ctrl msg) = SYS_FLASH_LOG_ENABLE then Inr out
         else if sys_cmd (get_sys_ctrl msg) = SYS_FLASH_LOG_DISABLE then Inr out
         else if sys_cmd (get_sys_ctrl msg) = SYS_RESET then
           Inl (AssertFailed ''System reset requested!'')
         else if sys_cmd (get_sys_ctrl msg) = SYS_CRITICAL_FLASH_FULL_ERASE then
           Inr (out @ [SendCommand FlashTask
                         (Command_new TASK_SPECIFIC_COMMAND (ERASE_ALL_FLASH K))])
         else if sys_cmd (get_sys_ctrl msg) = SYS_LOG_PERIOD_CHANGE then
           (let paramMs = cmd_param (get_sys_ctrl msg);
                paramMs = (if paramMs > 0xFFFF then 0xFFFE else paramMs)
            in Inr (out @ [SendCommand TelemetryTask
                             (Command_new TELEMETRY_CHANGE_PERIOD (ucast paramMs))]))
         else Inr out)
      else Inr out)"

section \<open>Tasks\<close>

text \<open>
  \<open>BMSTask::HandleCommand\<close>. \<open>BMSTask::HandleRequestCommand\<close> is not among the sources
  (BMSTask.cpp defines the function for another class); it receives the sub-code only, and
  its call is an event.
\<close>

definition BMSTask_HandleCommand :: "Command \<Rightarrow> event list \<Rightarrow> Command \<times> event list" where
  "BMSTask_HandleCommand cm tr =
     (let tr1 =
        (case GetCommand cm of
           REQUEST_COMMAND \<Rightarrow> tr @ [HandleRequestCommand_call (GetTaskCommand cm)]
         | TASK_SPECIFIC_COMMAND \<Rightarrow> tr
         | _ \<Rightarrow> tr @ [SOAR_PRINT ''ThermocoupleTask - Received Unsupported Command {%d}\<newline>''
                         [ArgKind (GetCommand cm)]])
      in (Reset cm, tr1))"

text \<open>
  \<open>TelemetryTask\<close>: the fields set by the constructor. \<open>loggingDelayMs\<close> holds
  \<open>TELEMETRY_DEFAULT_LOGGING_RATE_MS\<close> or a value cast to \<open>uint16_t\<close>.
\<close>

record TelemetryTask =
  loggingDelayMs :: nat
  numNonFlashLogs :: nat
  numNonControlLogs :: nat

definition TELEMETRY_DEFAULT_LOGGING_RATE_MS :: nat where
  "TELEMETRY_DEFAULT_LOGGING_RATE_MS = 100"

definition TelemetryTask_new :: TelemetryTask where
  "TelemetryTask_new =
     \<lparr>loggingDelayMs = TELEMETRY_DEFAULT_LOGGING_RATE_MS, numNonFlashLogs = 0,
      numNonControlLogs = 0\<rparr>"

definition TelemetryTask_HandleCommand ::
  "Command \<Rightarrow> TelemetryTask \<Rightarrow> event list \<Rightarrow> Command \<times> TelemetryTask \<times> event list" where
  "TelemetryTask_HandleCommand cm t tr =
     (case GetCommand cm of
        TELEMETRY_CHANGE_PERIOD \<Rightarrow>
          (Reset cm, t\<lparr>loggingDelayMs := unat (GetTaskCommand cm)\<rparr>, tr)
      | _ \<Rightarrow>
          (Reset cm, t,
           tr @ [SOAR_PRINT ''TelemetryTask - Received Unsupported Command {%d}\<newline>''
                   [ArgKind (GetCommand cm)]]))"

text \<open>
  \<open>FlightTask\<close> (the fields are written without the trailing underscore of the source).
  Its state machine \<open>rsm\<close> is a \<open>RocketSM\<close>, a class that is not among
  the sources: the machine is a type parameter, and its two member functions that the
  task calls are function parameters.

  Modelled from the spec: \<open>RocketSM::HandleCommand\<close> (\<open>handle\<close> below) reads the command
  and changes the machine (spec 4.3: it copies the payload out of the Command, invokes the
  handler of the current state and applies the returned state id); it does not reset the
  command, which the consuming task does (spec 3).
\<close>

record 'sm FlightTask =
  rsm :: "'sm option"
  firstStateSent :: nat

definition FlightTask_new :: "'sm FlightTask" where
  "FlightTask_new = \<lparr>rsm = None, firstStateSent = 0\<rparr>"

text \<open>
  The part of \<open>FlightTask::Run\<close> before the loop: the arguments of \<open>new RocketSM(...)\<close>.
  \<open>stored\<close> is the record read by \<open>SystemStorage::Inst().Read\<close>, \<open>None\<close> when the read
  fails; of the record only \<open>rocketState\<close> is used.
\<close>

record SystemState =
  rocketState :: int

definition Run_startup :: "Consts \<Rightarrow> SystemState option \<Rightarrow> int \<times> bool" where
  "Run_startup K stored =
     (case stored of
        Some sysState \<Rightarrow>
          (let sysState =
             (if rocketState sysState \<ge> RS_NONE K \<or> rocketState sysState < RS_PRELAUNCH K
              then sysState\<lparr>rocketState := RS_ABORT K\<rparr> else sysState)
           in (rocketState sysState, True))
      | None \<Rightarrow> (RS_ABORT K, True))"

definition SendRocketState ::
  "Consts \<Rightarrow> ('sm \<Rightarrow> nat) \<Rightarrow> 'sm FlightTask \<Rightarrow> event list \<Rightarrow> fault + ('sm FlightTask \<times> event list)" where
  "SendRocketState K GetRocketStateAsProto ft tr =
     (let (st, ft1) =
        (if firstStateSent ft < FLIGHT_TASK_BOOTUP_TELE_CYCLES K then
           ((if firstStateSent ft < 1 then SYS_UNCAUGHT_RESET else SYS_BOOTUP_COMPLETE),
            ft\<lparr>firstStateSent := firstStateSent ft + 1\<rparr>)
         else (SYS_NORMAL_OPERATION, ft))
      in case rsm ft of
        None \<Rightarrow> Inl NullPointer
      | Some sm \<Rightarrow>
          (let stateMsg = \<lparr>sys_state = st, rocket_state = GetRocketStateAsProto sm\<rparr>;
               msg = \<lparr>source = NODE_PMB, target = NODE_RCU, source_sequence_num = 0,
                      content = SysState stateMsg\<rparr>
           in Inr (ft1, tr @ [SendProtobufMessage DMBProtocolTask msg MSG_CONTROL])))"

definition FlightTask_HandleCommand ::
  "Consts \<Rightarrow> (Command \<Rightarrow> 'sm \<Rightarrow> event list \<Rightarrow> fault + ('sm \<times> event list)) \<Rightarrow> ('sm \<Rightarrow> nat)
     \<Rightarrow> Command \<Rightarrow> 'sm FlightTask \<Rightarrow> event list
     \<Rightarrow> fault + (Command \<times> 'sm FlightTask \<times> event list)" where
  "FlightTask_HandleCommand K handle GetRocketStateAsProto cm ft tr =
     (if GetCommand cm = REQUEST_COMMAND \<and> GetTaskCommand cm = FT_REQUEST_TRANSMIT_STATE K then
        (case SendRocketState K GetRocketStateAsProto ft tr of
           Inl e \<Rightarrow> Inl e
         | Inr (ft1, tr1) \<Rightarrow> Inr (Reset cm, ft1, tr1))
      else
        (case rsm ft of
           None \<Rightarrow> Inl NullPointer
         | Some sm \<Rightarrow>
             (case handle cm sm tr of
                Inl e \<Rightarrow> Inl e
              | Inr (sm1, tr1) \<Rightarrow> Inr (Reset cm, ft\<lparr>rsm := Some sm1\<rparr>, tr1))))"

section \<open>Values to run the functions on\<close>

definition exampleConsts :: Consts where
  "exampleConsts =
     \<lparr>BMS_UPDATE = 0, CHARGER_UPDATE = 1, FUEL_GAUGE_UPDATE = 2,
      sizeof_BMSData = 4, sizeof_ChargerData = 4, sizeof_FuelGaugeData = 4,
      RSC_ANY_TO_ABORT = 0, RADIOHB_REQUEST = 0, ERASE_ALL_FLASH = 0,
      FT_REQUEST_TRANSMIT_STATE = 0, FLIGHT_TASK_BOOTUP_TELE_CYCLES = 5,
      RS_PRELAUNCH = 0, RS_ABORT = 9, RS_NONE = 10\<rparr>"

text \<open>The machine after \<open>BatterySM(BS_CHARGING, false)\<close>, handlers returning their own id.\<close>

definition chargingSM :: BatterySM where
  "chargingSM =
     \<lparr>stateArray = stateTable BS_CHARGING, bs_currentState = Some (Charging BS_CHARGING)\<rparr>"

text \<open>
  A machine in Idle whose data handlers ask for the Fault state (\<open>currentState\<close> is
  \<open>BS_FAULT\<close>).
\<close>

definition faultingSM :: BatterySM where
  "faultingSM = \<lparr>stateArray = stateTable BS_FAULT, bs_currentState = Some (Idle BS_FAULT)\<rparr>"

definition bmsUpdate :: Command where
  "bmsUpdate =
     \<lparr>command = DATA_COMMAND, taskCommand = 0, data = Some [1, 2, 3, 4], resetCalls = 0\<rparr>"

text \<open>A flight task whose state machine is the battery machine above.\<close>

definition flightWithBattery :: "BatterySM FlightTask" where
  "flightWithBattery = \<lparr>rsm = Some chargingSM, firstStateSent = 0\<rparr>"

text \<open>Tables that break the construction invariant: a null slot, two states swapped.\<close>

definition nullSlotTable :: "BaseBatteryState option list" where
  "nullSlotTable =
     [Some (Idle BS_IDLE), None, Some (Discharging BS_IDLE), Some (Fault BS_IDLE)]"

definition swappedTable :: "BaseBatteryState option list" where
  "swappedTable =
     [Some (Charging BS_IDLE), Some (Idle BS_IDLE), Some (Discharging BS_IDLE),
      Some (Fault BS_IDLE)]"

text \<open>Control messages from the RCU to this node.\<close>

definition logPeriodChange :: "32 word \<Rightarrow> ControlMessage" where
  "logPeriodChange p =
     \<lparr>source = NODE_RCU, target = NODE_PMB, source_sequence_num = 7,
      content = SysCtrl \<lparr>sys_cmd = SYS_LOG_PERIOD_CHANGE, cmd_param = p\<rparr>\<rparr>"

definition pingFrom :: "Node \<Rightarrow> Node \<Rightarrow> 32 word \<Rightarrow> ControlMessage" where
  "pingFrom src tgt n =
     \<lparr>source = src, target = tgt, source_sequence_num = n, content = Ping\<rparr>"

definition abortCommand :: "Node \<Rightarrow> Node \<Rightarrow> CommandMessage" where
  "abortCommand src tgt =
     \<lparr>source = src, target = tgt, source_sequence_num = 1,
      cmd_content = PmbCommand Proto_RSC_ANY_TO_ABORT\<rparr>"

section \<open>Construction\<close>

lemma verifyStates_done: "\<not> i < BS_NONE \<Longrightarrow> verifyStates arr i = Inr ()"
  by (subst verifyStates.simps) simp

lemma verifyStates_bad: "i < BS_NONE \<Longrightarrow> \<not> slotOk arr i \<Longrightarrow> verifyStates arr i \<noteq> Inr ()"
  by (subst verifyStates.simps) (auto simp: slotOk_def split: option.splits)

lemma verifyStates_step: "i < BS_NONE \<Longrightarrow> slotOk arr i \<Longrightarrow> verifyStates arr i = verifyStates arr (i + 1)"
  by (subst verifyStates.simps) (simp add: slotOk_def split: option.splits)

lemma verifyStates_iff:
  "verifyStates arr k = Inr () \<longleftrightarrow> (\<forall>i. k \<le> i \<and> i < BS_NONE \<longrightarrow> slotOk arr i)"
proof (induction "BS_NONE - k" arbitrary: k)
  case 0
  then have "\<not> k < BS_NONE" by simp
  then show ?case by (auto simp: verifyStates_done)
next
  case (Suc n)
  then have lt: "k < BS_NONE" and n: "n = BS_NONE - (k + 1)" by simp_all
  show ?case
  proof (cases "slotOk arr k")
    case False
    with lt verifyStates_bad [OF lt False] show ?thesis by blast
  next
    case True
    have "(\<forall>i. k \<le> i \<and> i < BS_NONE \<longrightarrow> slotOk arr i)
            \<longleftrightarrow> (\<forall>i. k + 1 \<le> i \<and> i < BS_NONE \<longrightarrow> slotOk arr i)"
    proof
      assume "\<forall>i. k \<le> i \<and> i < BS_NONE \<longrightarrow> slotOk arr i"
      then show "\<forall>i. k + 1 \<le> i \<and> i < BS_NONE \<longrightarrow> slotOk arr i" by simp
    next
      assume a: "\<forall>i. k + 1 \<le> i \<and> i < BS_NONE \<longrightarrow> slotOk arr i"
      show "\<forall>i. k \<le> i \<and> i < BS_NONE \<longrightarrow> slotOk arr i"
      proof (intro allI impI)
        fix i assume i: "k \<le> i \<and> i < BS_NONE"
        show "slotOk arr i"
        proof (cases "i = k")
          case True
          with \<open>slotOk arr k\<close> show ?thesis by simp
        next
          case False
          with i have "k + 1 \<le> i \<and> i < BS_NONE" by simp
          with a show ?thesis by blast
        qed
      qed
    qed
    with Suc.hyps(1) [OF n] verifyStates_step [OF lt True] show ?thesis by simp
  qed
qed

lemma verifyStates_tableInvariant: "verifyStates arr 0 = Inr () \<longleftrightarrow> tableInvariant arr"
  by (auto simp: verifyStates_iff tableInvariant_def list_all_iff)

lemma verifyStates_faults:
  "BS_NONE \<le> length arr \<Longrightarrow> verifyStates arr k = Inr () \<or> (\<exists>msg. verifyStates arr k = Inl (AssertFailed msg))"
proof (induction "BS_NONE - k" arbitrary: k)
  case 0
  then have "\<not> k < BS_NONE" by simp
  then show ?case by (simp add: verifyStates_done)
next
  case (Suc n)
  then have lt: "k < BS_NONE" and n: "n = BS_NONE - (k + 1)" by simp_all
  from lt Suc.prems have len: "\<not> length arr \<le> k" by simp
  show ?case
  proof (cases "slotOk arr k")
    case True
    with Suc.hyps(1) [OF n Suc.prems] verifyStates_step [OF lt True] show ?thesis by simp
  next
    case False
    with lt len show ?thesis
      by (subst (1 2) verifyStates.simps) (simp add: slotOk_def split: option.splits)
  qed
qed


lemma tableInvariant_stateTable: "tableInvariant (stateTable c)"
  by (simp add: tableInvariant_def slotOk_def stateTable_def upt_rec GetStateID_def
      Idle_def Charging_def Discharging_def Fault_def
      BS_IDLE_def BS_CHARGING_def BS_DISCHARGING_def BS_FAULT_def BS_NONE_def)

lemma BatterySM_from_ok:
  assumes "tableInvariant arr" and "startingState < BS_NONE"
  shows "\<exists>cur tr'. arr ! startingState = Some cur \<and> GetStateID cur = startingState
           \<and> BatterySM_from arr startingState e tr
               = Inr (\<lparr>stateArray = arr, bs_currentState = Some cur\<rparr>, tr')"
proof -
  from assms have "slotOk arr startingState"
    by (simp add: tableInvariant_def list_all_iff)
  then obtain cur where "startingState < length arr" "arr ! startingState = Some cur"
      "GetStateID cur = startingState"
    by (auto simp: slotOk_def split: option.splits)
  moreover from assms(1) have "verifyStates arr 0 = Inr ()"
    by (simp add: verifyStates_tableInvariant)
  ultimately show ?thesis
    by (simp add: BatterySM_from_def Let_def)
qed

lemma BatterySM_from_Inr:
  assumes "BatterySM_from arr startingState e tr = Inr (sm, tr')"
  shows "tableInvariant arr \<and> stateArray sm = arr"
proof -
  from assms have v: "verifyStates arr 0 = Inr ()"
    by (auto simp: BatterySM_from_def split: sum.splits)
  with assms show ?thesis
    by (auto simp: BatterySM_from_def verifyStates_tableInvariant Let_def
        split: if_splits option.splits)
qed

lemma BatterySM_from_bad:
  assumes "length arr = BS_NONE" and "\<not> tableInvariant arr"
  shows "\<exists>msg. BatterySM_from arr startingState e tr = Inl (AssertFailed msg)"
proof -
  from assms(2) have "verifyStates arr 0 \<noteq> Inr ()"
    by (simp add: verifyStates_tableInvariant)
  with verifyStates_faults [of arr 0] assms(1)
  obtain msg where "verifyStates arr 0 = Inl (AssertFailed msg)" by auto
  then show ?thesis by (simp add: BatterySM_from_def)
qed

lemma bad_slot_breaks_invariant:
  assumes "i < BS_NONE" and "arr ! i = None \<or> (\<exists>s. arr ! i = Some s \<and> GetStateID s \<noteq> i)"
  shows "\<not> tableInvariant arr"
proof
  assume "tableInvariant arr"
  with assms(1) have "slotOk arr i" by (simp add: tableInvariant_def list_all_iff)
  with assms(2) show False by (auto simp: slotOk_def)
qed

text \<open>
  C3. \<open>BatterySM::BatterySM\<close> with a starting state in \<open>[0, BS_NONE)\<close> completes, and in
  the machine every slot \<open>i\<close> of \<open>[0, BS_NONE)\<close> holds a state object whose
  \<open>GetStateID()\<close> is \<open>i\<close>. Whatever the table, a construction that completes has checked
  exactly that; and on a table of \<open>BS_NONE\<close> slots with a null slot or a slot whose
  object reports another id, the construction stops in a failed \<open>SOAR_ASSERT\<close>.
\<close>

theorem BatterySM_construction:
  "(startingState < BS_NONE \<longrightarrow>
      (\<exists>sm tr'. BatterySM_new c startingState e tr = Inr (sm, tr')
          \<and> tableInvariant (stateArray sm)))
   \<and> (\<forall>sm tr'. BatterySM_from arr startingState e tr = Inr (sm, tr') \<longrightarrow>
          stateArray sm = arr \<and> tableInvariant arr)
   \<and> (length bad = BS_NONE \<and> i < BS_NONE
        \<and> (bad ! i = None \<or> (\<exists>s. bad ! i = Some s \<and> GetStateID s \<noteq> i)) \<longrightarrow>
          (\<exists>msg. BatterySM_from bad startingState e tr = Inl (AssertFailed msg)))"
proof (intro conjI impI allI)
  assume "startingState < BS_NONE"
  from BatterySM_from_ok [OF tableInvariant_stateTable this, of c e tr]
  show "\<exists>sm tr'. BatterySM_new c startingState e tr = Inr (sm, tr')
          \<and> tableInvariant (stateArray sm)"
    by (auto simp: BatterySM_new_def tableInvariant_stateTable)
next
  fix sm tr' assume "BatterySM_from arr startingState e tr = Inr (sm, tr')"
  from BatterySM_from_Inr [OF this] show "stateArray sm = arr" and "tableInvariant arr"
    by simp_all
next
  assume a: "length bad = BS_NONE \<and> i < BS_NONE
        \<and> (bad ! i = None \<or> (\<exists>s. bad ! i = Some s \<and> GetStateID s \<noteq> i))"
  then have "\<not> tableInvariant bad" using bad_slot_breaks_invariant [of i bad] by blast
  with a show "\<exists>msg. BatterySM_from bad startingState e tr = Inl (AssertFailed msg)"
    using BatterySM_from_bad [of bad startingState e tr] by blast
qed

theorem BatterySM_construction_witness:
  "BS_IDLE < BS_NONE
   \<and> (\<exists>sm tr'. BatterySM_new BS_IDLE BS_IDLE True [] = Inr (sm, tr')
          \<and> tableInvariant (stateArray sm))
   \<and> BatterySM_from (stateTable BS_IDLE) BS_IDLE True []
        = Inr (\<lparr>stateArray = stateTable BS_IDLE, bs_currentState = Some (Idle BS_IDLE)\<rparr>,
               [OnEnter_call BS_IDLE,
                SOAR_PRINT ''Battery State Machine Started in [ %s ] state\<newline>'' [ArgStr ''Idle'']])
   \<and> tableInvariant (stateTable BS_IDLE)
   \<and> length nullSlotTable = BS_NONE \<and> nullSlotTable ! 1 = None
   \<and> (\<exists>msg. BatterySM_from nullSlotTable BS_IDLE True [] = Inl (AssertFailed msg))
   \<and> length swappedTable = BS_NONE \<and> GetStateID (the (swappedTable ! 0)) \<noteq> 0
   \<and> (\<exists>msg. BatterySM_from swappedTable BS_IDLE True [] = Inl (AssertFailed msg))"
proof -
  have ok: "BatterySM_from (stateTable BS_IDLE) BS_IDLE True []
        = Inr (\<lparr>stateArray = stateTable BS_IDLE, bs_currentState = Some (Idle BS_IDLE)\<rparr>,
               [OnEnter_call BS_IDLE,
                SOAR_PRINT ''Battery State Machine Started in [ %s ] state\<newline>'' [ArgStr ''Idle'']])"
    using BatterySM_from_ok [OF tableInvariant_stateTable, of BS_IDLE BS_IDLE True "[]"]
    by (auto simp: BatterySM_from_def Let_def stateTable_def BS_IDLE_def BS_NONE_def
        Idle_def GetStateID_def split: sum.splits)
  have n: "length nullSlotTable = BS_NONE \<and> (1::nat) < BS_NONE \<and> nullSlotTable ! 1 = None"
    by (simp add: nullSlotTable_def BS_NONE_def)
  have s: "length swappedTable = BS_NONE \<and> (0::nat) < BS_NONE
      \<and> swappedTable ! 0 = Some (Charging BS_IDLE) \<and> GetStateID (Charging BS_IDLE) \<noteq> 0"
    by (simp add: swappedTable_def BS_NONE_def Charging_def GetStateID_def BS_CHARGING_def)
  have lt: "BS_IDLE < BS_NONE" by (simp add: BS_IDLE_def BS_NONE_def)
  from BatterySM_construction [of BS_IDLE BS_IDLE True "[]" "stateTable BS_IDLE" nullSlotTable 1]
       BatterySM_construction [of BS_IDLE BS_IDLE True "[]" "stateTable BS_IDLE" swappedTable 0]
       ok n s lt
  show ?thesis by auto
qed

section \<open>Transitions\<close>

text \<open>
  C4. In any current state \<open>s\<close>, \<open>TransitionState\<close> called with the id of \<open>s\<close> does nothing:
  the machine (table and current state) and the events (so no \<open>OnExit\<close> or \<open>OnEnter\<close>
  call) are unchanged, and the call returns the id of \<open>s\<close>.
\<close>

theorem TransitionState_self:
  assumes "bs_currentState sm = Some s"
  shows "TransitionState (GetStateID s) sm tr = Inr (GetStateID s, sm, tr)"
  using assms by (simp add: TransitionState_def)

theorem TransitionState_self_witness:
  "bs_currentState chargingSM = Some (Charging BS_CHARGING)
   \<and> TransitionState BS_CHARGING chargingSM [] = Inr (BS_CHARGING, chargingSM, [])"
  using TransitionState_self [of chargingSM "Charging BS_CHARGING" "[]"]
  by (simp add: chargingSM_def Charging_def GetStateID_def)

text \<open>
  C5. In any current state \<open>s\<close>, \<open>TransitionState\<close> called with a target outside
  \<open>[0, BS_NONE)\<close>, that is \<open>nextState \<ge> BS_NONE\<close>, rejects it: the machine and the events
  (so no exit or entry hook call) are unchanged, and the call returns the id of \<open>s\<close>.
\<close>

theorem TransitionState_invalid_target:
  assumes "bs_currentState sm = Some s" and "BS_NONE \<le> nextState"
  shows "TransitionState nextState sm tr = Inr (GetStateID s, sm, tr)"
  using assms by (simp add: TransitionState_def)

theorem TransitionState_invalid_target_witness:
  "bs_currentState chargingSM = Some (Charging BS_CHARGING) \<and> BS_NONE \<le> 7
   \<and> TransitionState 7 chargingSM [] = Inr (BS_CHARGING, chargingSM, [])"
  using TransitionState_invalid_target [of chargingSM "Charging BS_CHARGING" 7 "[]"]
  by (simp add: chargingSM_def Charging_def GetStateID_def BS_NONE_def)

section \<open>Handling a command in the battery state machine\<close>

text \<open>
  C10. For every command, \<open>BatterySM::HandleCommand\<close> on a machine with a current state
  returns the machine as it was (same table, same current state), and the hook calls
  among the events are the same as before: the state id that a data handler returns is
  passed to nothing.
\<close>

theorem HandleCommand_frame:
  assumes "bs_currentState sm = Some s"
  shows "\<exists>tr'. HandleCommand K cm sm tr = Inr (sm, tr') \<and> hook_calls tr' = hook_calls tr"
  using assms
  by (cases "GetCommand cm") (simp_all add: HandleCommand_def Let_def hook_calls_def)

theorem HandleCommand_frame_witness:
  "bs_currentState faultingSM = Some (Idle BS_FAULT)
   \<and> (\<exists>tr'. HandleCommand exampleConsts bmsUpdate faultingSM [] = Inr (faultingSM, tr')
         \<and> hook_calls tr' = hook_calls [])"
  using HandleCommand_frame [of faultingSM "Idle BS_FAULT" exampleConsts bmsUpdate "[]"]
  by (simp add: faultingSM_def)

text \<open>
  C1 on the code. The machine \<open>faultingSM\<close> has a valid table and is in Idle; the command
  is a \<open>DATA_COMMAND\<close> with sub-code \<open>BMS_UPDATE\<close>; the handler of the current state
  returns \<open>BS_FAULT\<close>, a valid state other than the current one. \<open>HandleCommand\<close> returns
  the machine still in Idle, with no event, where \<open>TransitionState BS_FAULT\<close> on the same
  machine moves to Fault and runs the hooks.
\<close>

theorem HandleCommand_discards_nextState:
  "tableInvariant (stateArray faultingSM)
   \<and> bs_currentState faultingSM = Some (Idle BS_FAULT)
   \<and> GetStateID (Idle BS_FAULT) = BS_IDLE
   \<and> GetCommand bmsUpdate = DATA_COMMAND
   \<and> GetTaskCommand bmsUpdate = BMS_UPDATE exampleConsts
   \<and> HandleBMSData (Idle BS_FAULT)
        (CopyDataFromCommand bmsUpdate (sizeof_BMSData exampleConsts)) = BS_FAULT
   \<and> BS_FAULT < BS_NONE \<and> BS_FAULT \<noteq> BS_IDLE
   \<and> HandleCommand exampleConsts bmsUpdate faultingSM [] = Inr (faultingSM, [])
   \<and> TransitionState BS_FAULT faultingSM []
        = Inr (BS_FAULT, faultingSM\<lparr>bs_currentState := Some (Fault BS_FAULT)\<rparr>,
               [OnExit_call BS_IDLE, OnEnter_call BS_FAULT,
                SOAR_PRINT ''BATTERY STATE TRANSITION [ %s ] --> [ %s ]\<newline>''
                  [ArgStr ''Idle'', ArgStr ''Fault'']])"
  by (simp add: faultingSM_def tableInvariant_def slotOk_def stateTable_def upt_rec
      GetStateID_def Idle_def Charging_def Discharging_def Fault_def
      BS_IDLE_def BS_CHARGING_def BS_DISCHARGING_def BS_FAULT_def BS_NONE_def
      HandleCommand_def GetCommand_def GetTaskCommand_def bmsUpdate_def exampleConsts_def
      TransitionState_def Let_def)

section \<open>Gateway: routing, ping, log period\<close>

text \<open>
  C6. A command-category or control-category envelope whose source is not \<open>NODE_RCU\<close> or
  whose target is not \<open>NODE_PMB\<close> is dropped: the handler returns without a fault and
  with the events it was given, so there is no \<open>SendCommand\<close> to any task and no
  \<open>SendProtobufMessage\<close>.
\<close>

theorem foreign_envelope_dropped:
  "(source cmsg \<noteq> NODE_RCU \<or> target cmsg \<noteq> NODE_PMB \<longrightarrow>
      HandleProtobufCommandMessage K cmsg out = Inr out)
   \<and> (source msg \<noteq> NODE_RCU \<or> target msg \<noteq> NODE_PMB \<longrightarrow>
      HandleProtobufControlMesssage K msg out = Inr out)"
  by (simp add: HandleProtobufCommandMessage_def HandleProtobufControlMesssage_def)

theorem foreign_envelope_dropped_witness:
  "target (abortCommand NODE_RCU NODE_DMB) \<noteq> NODE_PMB
   \<and> HandleProtobufCommandMessage exampleConsts (abortCommand NODE_RCU NODE_DMB) [] = Inr []
   \<and> source (pingFrom NODE_DMB NODE_PMB 42) \<noteq> NODE_RCU
   \<and> HandleProtobufControlMesssage exampleConsts (pingFrom NODE_DMB NODE_PMB 42) [] = Inr []"
  using foreign_envelope_dropped [of "abortCommand NODE_RCU NODE_DMB" exampleConsts "[]"
      "pingFrom NODE_DMB NODE_PMB 42"]
  by (simp add: abortCommand_def pingFrom_def)

text \<open>
  C7. A control envelope from \<open>NODE_RCU\<close> to \<open>NODE_PMB\<close> that carries a ping with source
  sequence number \<open>n\<close> adds exactly one event: one \<open>SendProtobufMessage\<close> of a control
  message whose acknowledgement names \<open>NODE_RCU\<close> as the acked source and \<open>n\<close> as the
  acked sequence number.
\<close>

theorem ping_acknowledged:
  assumes "source msg = NODE_RCU" and "target msg = NODE_PMB" and "content msg = Ping"
    and "source_sequence_num msg = n"
  shows "\<exists>ackResponse ack.
           HandleProtobufControlMesssage K msg out
             = Inr (out @ [SendProtobufMessage PMBProtocolTask ackResponse MSG_CONTROL])
           \<and> content ackResponse = Ack ack
           \<and> acking_msg_source ack = NODE_RCU \<and> acking_sequence_num ack = n"
  using assms by (simp add: HandleProtobufControlMesssage_def has_hb_def has_ping_def Let_def)

theorem ping_acknowledged_witness:
  "source (pingFrom NODE_RCU NODE_PMB 42) = NODE_RCU
   \<and> target (pingFrom NODE_RCU NODE_PMB 42) = NODE_PMB
   \<and> content (pingFrom NODE_RCU NODE_PMB 42) = Ping
   \<and> source_sequence_num (pingFrom NODE_RCU NODE_PMB 42) = 42
   \<and> (\<exists>ackResponse ack.
           HandleProtobufControlMesssage exampleConsts (pingFrom NODE_RCU NODE_PMB 42) []
             = Inr [SendProtobufMessage PMBProtocolTask ackResponse MSG_CONTROL]
           \<and> content ackResponse = Ack ack
           \<and> acking_msg_source ack = NODE_RCU \<and> acking_sequence_num ack = 42)"
  using ping_acknowledged [of "pingFrom NODE_RCU NODE_PMB 42" 42 exampleConsts "[]"]
  by (simp add: pingFrom_def)

lemma clamp_unat:
  fixes p :: "32 word"
  shows "unat (ucast (if p > 0xFFFF then 0xFFFE else p) :: 16 word)
           = (if 65535 < unat p then 65534 else unat p)"
proof (cases "p > 0xFFFF")
  case True
  then have "65535 < unat p" by (simp add: word_less_nat_alt)
  with True show ?thesis by simp
next
  case False
  then have le: "unat p \<le> 65535" by (simp add: word_less_nat_alt)
  then have "unat (ucast p :: 16 word) = unat p"
    by (simp add: unsigned_ucast_eq take_bit_nat_eq_self)
  with False le show ?thesis by simp
qed

text \<open>
  C2 as stated fails on the code: for the parameter 100000 the forwarded command carries
  \<open>0xFFFE\<close> (65534), not \<open>0xFFFF\<close> (65535).
\<close>

theorem log_period_change_100000:
  "HandleProtobufControlMesssage exampleConsts (logPeriodChange 100000) []
     = Inr [SendCommand TelemetryTask (Command_new TELEMETRY_CHANGE_PERIOD 0xFFFE)]
   \<and> HandleProtobufControlMesssage exampleConsts (logPeriodChange 100000) []
     \<noteq> Inr [SendCommand TelemetryTask (Command_new TELEMETRY_CHANGE_PERIOD 0xFFFF)]"
  by (simp add: HandleProtobufControlMesssage_def has_hb_def has_ping_def has_sys_ctrl_def
      get_sys_ctrl_def logPeriodChange_def Let_def Command_new_def)

text \<open>
  C2 as amended. A system-control message from \<open>NODE_RCU\<close> to \<open>NODE_PMB\<close> that asks for a
  log-period change with parameter \<open>p\<close> adds exactly one event, a \<open>SendCommand\<close> to the
  telemetry task of a \<open>TELEMETRY_CHANGE_PERIOD\<close> command whose value is \<open>p\<close> when
  \<open>p \<le> 0xFFFF\<close> and \<open>0xFFFE\<close> (65534) when \<open>p > 0xFFFF\<close>; the telemetry task, handling
  that command, takes the value as its logging delay.
\<close>

theorem log_period_change_clamped:
  assumes "source msg = NODE_RCU" and "target msg = NODE_PMB"
    and "content msg = SysCtrl sc" and "sys_cmd sc = SYS_LOG_PERIOD_CHANGE"
  shows "\<exists>cm. HandleProtobufControlMesssage K msg out = Inr (out @ [SendCommand TelemetryTask cm])
           \<and> GetCommand cm = TELEMETRY_CHANGE_PERIOD
           \<and> unat (GetTaskCommand cm)
               = (if 65535 < unat (cmd_param sc) then 65534 else unat (cmd_param sc))
           \<and> loggingDelayMs (fst (snd (TelemetryTask_HandleCommand cm t tr)))
               = (if 65535 < unat (cmd_param sc) then 65534 else unat (cmd_param sc))"
  using assms clamp_unat [of "cmd_param sc"]
  by (simp add: HandleProtobufControlMesssage_def has_hb_def has_ping_def has_sys_ctrl_def
      get_sys_ctrl_def Let_def Command_new_def GetCommand_def GetTaskCommand_def
      TelemetryTask_HandleCommand_def)

theorem log_period_change_clamped_witness:
  "source (logPeriodChange 100000) = NODE_RCU \<and> target (logPeriodChange 100000) = NODE_PMB
   \<and> (\<exists>cm. HandleProtobufControlMesssage exampleConsts (logPeriodChange 100000) []
              = Inr [SendCommand TelemetryTask cm]
         \<and> GetCommand cm = TELEMETRY_CHANGE_PERIOD
         \<and> unat (GetTaskCommand cm) = 65534
         \<and> loggingDelayMs (fst (snd (TelemetryTask_HandleCommand cm TelemetryTask_new []))) = 65534)"
  using log_period_change_clamped [of "logPeriodChange 100000"
      "\<lparr>sys_cmd = SYS_LOG_PERIOD_CHANGE, cmd_param = 100000\<rparr>" exampleConsts "[]"
      TelemetryTask_new "[]"]
  by (simp add: logPeriodChange_def)

section \<open>Startup of the flight task\<close>

text \<open>
  C8. If the read of the persisted system state fails, or the persisted phase is below
  \<open>RS_PRELAUNCH\<close> or at least \<open>RS_NONE\<close>, \<open>FlightTask::Run\<close> constructs the rocket state
  machine with starting state \<open>RS_ABORT\<close> (and runs its entry hook); otherwise it
  constructs it with the persisted phase.
\<close>

theorem Run_startup_state:
  "(stored = None \<or> (\<exists>st. stored = Some st
        \<and> (rocketState st < RS_PRELAUNCH K \<or> RS_NONE K \<le> rocketState st))
      \<longrightarrow> Run_startup K stored = (RS_ABORT K, True))
   \<and> (\<forall>st. stored = Some st \<and> RS_PRELAUNCH K \<le> rocketState st \<and> rocketState st < RS_NONE K
      \<longrightarrow> Run_startup K stored = (rocketState st, True))"
  by (auto simp: Run_startup_def Let_def)

theorem Run_startup_state_witness:
  "Run_startup exampleConsts None = (RS_ABORT exampleConsts, True)
   \<and> RS_NONE exampleConsts \<le> 12
   \<and> Run_startup exampleConsts (Some \<lparr>rocketState = 12\<rparr>) = (RS_ABORT exampleConsts, True)
   \<and> (-1) < RS_PRELAUNCH exampleConsts
   \<and> Run_startup exampleConsts (Some \<lparr>rocketState = -1\<rparr>) = (RS_ABORT exampleConsts, True)
   \<and> RS_PRELAUNCH exampleConsts \<le> 3 \<and> 3 < RS_NONE exampleConsts
   \<and> Run_startup exampleConsts (Some \<lparr>rocketState = 3\<rparr>) = (3, True)"
  using Run_startup_state [of None exampleConsts]
    Run_startup_state [of "Some \<lparr>rocketState = 12\<rparr>" exampleConsts]
    Run_startup_state [of "Some \<lparr>rocketState = -1\<rparr>" exampleConsts]
    Run_startup_state [of "Some \<lparr>rocketState = 3\<rparr>" exampleConsts]
  by (simp add: exampleConsts_def)

section \<open>Reset of a dispatched command\<close>

lemma Reset_once: "resetCalls (Reset cm) = Suc (resetCalls cm) \<and> data (Reset cm) = None"
  by (simp add: Reset_def)

lemma BMSTask_HandleCommand_cmd: "fst (BMSTask_HandleCommand cm tr) = Reset cm"
  by (simp add: BMSTask_HandleCommand_def Let_def)

lemma TelemetryTask_HandleCommand_cmd: "fst (TelemetryTask_HandleCommand cm t tr) = Reset cm"
  by (cases "GetCommand cm") (simp_all add: TelemetryTask_HandleCommand_def)

lemma FlightTask_HandleCommand_cmd:
  assumes "FlightTask_HandleCommand K handle proto cm ft tr = Inr (cm', ft', tr')"
  shows "cm' = Reset cm"
  using assms
  by (auto simp: FlightTask_HandleCommand_def split: if_splits sum.splits option.splits)

lemma FlightTask_HandleCommand_returns:
  assumes "rsm ft = Some sm" and "\<exists>r. handle cm sm tr = Inr r"
  shows "\<exists>r. FlightTask_HandleCommand K handle proto cm ft tr = Inr r"
  using assms
  by (auto simp: FlightTask_HandleCommand_def SendRocketState_def Let_def
      split: if_splits sum.splits option.splits prod.splits)

text \<open>
  C9. \<open>HandleCommand\<close> of the BMS task and of the telemetry task, on every command, makes
  exactly one \<open>Reset()\<close> call on it and leaves it without payload. \<open>HandleCommand\<close> of
  the flight task does the same whenever it returns, and it returns whenever the state
  machine exists and its \<open>HandleCommand\<close> returns (a fatal assertion inside the state
  machine stops the system before the reset).
\<close>

theorem HandleCommand_resets_once:
  "resetCalls (fst (BMSTask_HandleCommand cm tr)) = Suc (resetCalls cm)
   \<and> data (fst (BMSTask_HandleCommand cm tr)) = None
   \<and> resetCalls (fst (TelemetryTask_HandleCommand cm t tr)) = Suc (resetCalls cm)
   \<and> data (fst (TelemetryTask_HandleCommand cm t tr)) = None
   \<and> (\<forall>cm' ft' tr'. FlightTask_HandleCommand K handle proto cm ft tr = Inr (cm', ft', tr') \<longrightarrow>
        resetCalls cm' = Suc (resetCalls cm) \<and> data cm' = None)
   \<and> (rsm ft = Some sm \<and> (\<exists>r. handle cm sm tr = Inr r) \<longrightarrow>
        (\<exists>r. FlightTask_HandleCommand K handle proto cm ft tr = Inr r))"
proof (intro conjI impI allI)
  fix cm' ft' tr'
  assume r: "FlightTask_HandleCommand K handle proto cm ft tr = Inr (cm', ft', tr')"
  from FlightTask_HandleCommand_cmd [OF r] Reset_once [of cm]
  show "resetCalls cm' = Suc (resetCalls cm)" and "data cm' = None" by simp_all
next
  assume "rsm ft = Some sm \<and> (\<exists>r. handle cm sm tr = Inr r)"
  with FlightTask_HandleCommand_returns [of ft sm handle cm tr K proto]
  show "\<exists>r. FlightTask_HandleCommand K handle proto cm ft tr = Inr r" by blast
qed (simp_all add: BMSTask_HandleCommand_cmd TelemetryTask_HandleCommand_cmd Reset_once)

theorem HandleCommand_resets_once_witness:
  "resetCalls bmsUpdate = 0
   \<and> resetCalls (fst (BMSTask_HandleCommand bmsUpdate [])) = 1
   \<and> data (fst (BMSTask_HandleCommand bmsUpdate [])) = None
   \<and> resetCalls (fst (TelemetryTask_HandleCommand bmsUpdate TelemetryTask_new [])) = 1
   \<and> data (fst (TelemetryTask_HandleCommand bmsUpdate TelemetryTask_new [])) = None
   \<and> rsm flightWithBattery = Some chargingSM
   \<and> HandleCommand exampleConsts bmsUpdate chargingSM [] = Inr (chargingSM, [])
   \<and> FlightTask_HandleCommand exampleConsts (HandleCommand exampleConsts) (\<lambda>sm. 0)
        bmsUpdate flightWithBattery []
       = Inr (bmsUpdate\<lparr>data := None, resetCalls := 1\<rparr>, flightWithBattery, [])"
proof -
  have h: "HandleCommand exampleConsts bmsUpdate chargingSM [] = Inr (chargingSM, [])"
    by (simp add: HandleCommand_def chargingSM_def bmsUpdate_def exampleConsts_def
        GetCommand_def GetTaskCommand_def Let_def)
  have f: "FlightTask_HandleCommand exampleConsts (HandleCommand exampleConsts) (\<lambda>sm. 0)
        bmsUpdate flightWithBattery []
       = Inr (Reset bmsUpdate, flightWithBattery, [])"
    by (simp add: FlightTask_HandleCommand_def flightWithBattery_def h)
       (simp add: bmsUpdate_def GetCommand_def)
  have r: "Reset bmsUpdate = bmsUpdate\<lparr>data := None, resetCalls := 1\<rparr>"
    by (simp add: Reset_def bmsUpdate_def)
  from HandleCommand_resets_once [of bmsUpdate "[]" TelemetryTask_new exampleConsts
      "HandleCommand exampleConsts" "\<lambda>sm. 0" flightWithBattery chargingSM] h f r
  show ?thesis by (simp add: bmsUpdate_def flightWithBattery_def)
qed

end
